theory Spec2Isabelle
  imports Complex_Main "HOL-Library.Multiset"
begin

section \<open>Numbers and strings of the source language\<close>

text \<open>
  Python floats are read as rationals: every constant of the pipeline (0.95, 0.5, 0.3, ...)
  is a finite decimal and the claims compare such values exactly. Python integers are
  unbounded and are read as \<^typ>\<open>int\<close> (or \<^typ>\<open>nat\<close> where the value is a length).
\<close>

definition py_round :: "rat \<Rightarrow> int" where
  \<comment> \<open>\<open>round(x)\<close>: to the nearest integer, a tie goes to the even neighbour.\<close>
  "py_round x =
     (let f = \<lfloor>x\<rfloor>; d = x - of_int f
      in if d < 1 / 2 then f
         else if 1 / 2 < d then f + 1
         else if even f then f else f + 1)"

definition py_round_digits :: "rat \<Rightarrow> nat \<Rightarrow> rat" where
  \<comment> \<open>\<open>round(x, n)\<close>\<close>
  "py_round_digits x n = of_int (py_round (x * 10 ^ n)) / 10 ^ n"

definition py_int :: "rat \<Rightarrow> int" where
  \<comment> \<open>\<open>int(x)\<close> on a float truncates towards zero.\<close>
  "py_int x = (if 0 \<le> x then \<lfloor>x\<rfloor> else \<lceil>x\<rceil>)"

section \<open>Page Content Analyzer (document\_analyzer.py)\<close>

datatype DocumentType = NATIVE | SCANNED | MIXED

datatype ProcessingPath = STRUCTURAL | OCR_AGENTIC

record PageAnalysis =
  page_number :: int
  has_text :: bool
  text_density :: rat
  text_length :: nat
  estimated_readability :: rat
  requires_ocr :: bool

text \<open>
  \<open>decision_factors\<close> holds log-style sentences with formatted floats; no other field is
  computed from it, and it is left out of the record.
\<close>

record DocumentAnalysisResult =
  document_type :: DocumentType
  processing_path :: ProcessingPath
  confidence :: rat
  total_pages :: int
  pages_with_text :: int
  pages_requiring_ocr :: int
  page_analyses :: "PageAnalysis list"
  analysis_method :: string

text \<open>The thresholds set in \<open>DocumentAnalyzer.__init__\<close>.\<close>

definition native_page_threshold :: rat where
  "native_page_threshold = 0.8"

definition mixed_threshold :: rat where
  "mixed_threshold = 0.3"

definition sample_size_limit :: nat where
  "sample_size_limit = 5"

subsection \<open>\<open>_determine_sample_pages\<close>\<close>

definition determine_sample_pages :: "nat \<Rightarrow> nat list" where
  "determine_sample_pages n =
     (if n \<le> sample_size_limit then [0..<n]
      else
        let sample_pages = [0, n - 1];
            remaining_samples = sample_size_limit - 2;
            step = max 1 (n div (remaining_samples + 1));
            sample_pages' =
              (if 0 < remaining_samples
               then fold (\<lambda>i acc.
                            let page_num = min (i * step) (n - 2)
                            in if page_num \<notin> set acc then acc @ [page_num] else acc)
                         [1..<remaining_samples + 1] sample_pages
               else sample_pages)
        in sort (remdups sample_pages'))"

subsection \<open>\<open>_analyze_page\<close>\<close>

text \<open>
  A page of the opened PDF, as far as \<open>_analyze_page\<close> reads it: the length of its
  stripped text, the area of its rectangle, and the verdicts of the two text heuristics
  \<open>_has_meaningful_text\<close> and \<open>_estimate_readability\<close> on that text. Loading a page may
  raise, and so may opening the file; an exception is its message.
\<close>

record Page =
  pg_text_length :: nat
  pg_area :: rat
  pg_meaningful :: bool
  pg_readability :: rat

type_synonym Document = "(string + Page) list"

type_synonym Pdf = "string + Document"

definition analyze_page :: "Document \<Rightarrow> nat \<Rightarrow> string + PageAnalysis" where
  "analyze_page doc page_num =
     (if length doc \<le> page_num then Inl ''page not in document''
      else case doc ! page_num of
        Inl e \<Rightarrow> Inl e
      | Inr page \<Rightarrow>
          let text_density =
                (if 0 < pg_area page then of_nat (pg_text_length page * 1000) / pg_area page else 0)
          in Inr \<lparr> page_number = int page_num + 1,
                   has_text = pg_meaningful page,
                   text_density = py_round_digits text_density 2,
                   text_length = pg_text_length page,
                   estimated_readability = pg_readability page,
                   requires_ocr = (\<not> pg_meaningful page) \<rparr>)"

fun analyze_pages :: "Document \<Rightarrow> nat list \<Rightarrow> string + PageAnalysis list" where
  "analyze_pages doc [] = Inr []"
| "analyze_pages doc (i # is) =
     (case analyze_page doc i of
        Inl e \<Rightarrow> Inl e
      | Inr a \<Rightarrow> (case analyze_pages doc is of Inl e \<Rightarrow> Inl e | Inr as \<Rightarrow> Inr (a # as)))"

subsection \<open>\<open>_classify_document\<close>\<close>

definition text_page_ratio :: "PageAnalysis list \<Rightarrow> rat" where
  "text_page_ratio pas =
     (if pas \<noteq> [] then of_nat (length (filter has_text pas)) / of_nat (length pas) else 0)"

definition ocr_page_ratio :: "PageAnalysis list \<Rightarrow> rat" where
  "ocr_page_ratio pas =
     (if pas \<noteq> [] then of_nat (length (filter requires_ocr pas)) / of_nat (length pas) else 1)"

definition classify_type :: "PageAnalysis list \<Rightarrow> DocumentType \<times> ProcessingPath \<times> rat" where
  \<comment> \<open>the \<open>if / elif / else\<close> that fixes type, path and the confidence before the
      readability adjustment\<close>
  "classify_type pas =
     (if native_page_threshold \<le> text_page_ratio pas
      then (NATIVE, STRUCTURAL, min 0.95 (0.5 + text_page_ratio pas * 0.5))
      else if text_page_ratio pas \<le> mixed_threshold
      then (SCANNED, OCR_AGENTIC, min 0.95 (0.5 + ocr_page_ratio pas * 0.5))
      else (MIXED, OCR_AGENTIC, 0.7))"

text \<open>
  The mean readability is the exact mean of the pages' values. The interpreter's
  double-precision mean can differ from it in the last bits, so for a mean within
  rounding distance of 0.8 or 0.3 the code may take the neighbouring branch of the
  adjustment below; type, path and the page counts do not depend on that branch, and the
  confidence stays within 0.5 and 0.98 on every branch.
\<close>

definition avg_readability :: "PageAnalysis list \<Rightarrow> rat" where
  "avg_readability pas = sum_list (map estimated_readability pas) / of_nat (length pas)"

definition adjust_confidence :: "PageAnalysis list \<Rightarrow> rat \<Rightarrow> rat" where
  "adjust_confidence pas c =
     (if pas \<noteq> [] then
        if 0.8 < avg_readability pas then min 0.98 (c + 0.1)
        else if avg_readability pas < 0.3 then max 0.5 (c - 0.1)
        else c
      else c)"

definition classify_document :: "PageAnalysis list \<Rightarrow> int \<Rightarrow> DocumentAnalysisResult" where
  "classify_document pas tp =
     (let pwt = int (length (filter has_text pas));
          (doc_type, path, confidence0) = classify_type pas;
          confidence1 = adjust_confidence pas confidence0;
          estimated_text_pages =
            (if pas \<noteq> [] then py_int (of_int (pwt * tp) / of_nat (length pas)) else 0);
          estimated_ocr_pages = tp - estimated_text_pages
      in \<lparr> document_type = doc_type,
           processing_path = path,
           confidence = py_round_digits confidence1 3,
           total_pages = tp,
           pages_with_text = estimated_text_pages,
           pages_requiring_ocr = estimated_ocr_pages,
           page_analyses = pas,
           analysis_method = (if int (length pas) < tp then ''sampling'' else ''complete'') \<rparr>)"

subsection \<open>\<open>_create_fallback_result\<close> and \<open>analyze_pdf_type\<close>\<close>

definition analyzer_fallback_result :: "string \<Rightarrow> DocumentAnalysisResult" where
  "analyzer_fallback_result error_message =
     \<lparr> document_type = SCANNED,
       processing_path = OCR_AGENTIC,
       confidence = 0.3,
       total_pages = 1,
       pages_with_text = 0,
       pages_requiring_ocr = 1,
       page_analyses = [],
       analysis_method = ''fallback'' \<rparr>"

definition analyze_pdf_try :: "Pdf \<Rightarrow> string + DocumentAnalysisResult" where
  \<comment> \<open>the body of the \<open>try\<close> block\<close>
  "analyze_pdf_try pdf =
     (case pdf of
        Inl e \<Rightarrow> Inl e
      | Inr doc \<Rightarrow>
          let tp = length doc;
              pages_to_analyze = determine_sample_pages tp
          in (case analyze_pages doc pages_to_analyze of
                Inl e \<Rightarrow> Inl e
              | Inr pas \<Rightarrow> Inr (classify_document pas (int tp))))"

definition analyze_pdf_type :: "Pdf \<Rightarrow> string + DocumentAnalysisResult" where
  \<comment> \<open>\<open>try: ... except Exception as e: return self._create_fallback_result(str(e))\<close>\<close>
  "analyze_pdf_type pdf =
     (case analyze_pdf_try pdf of
        Inr r \<Rightarrow> Inr r
      | Inl e \<Rightarrow> Inr (analyzer_fallback_result e))"

section \<open>Strings and dictionaries\<close>

text \<open>
  A Python string is a \<^typ>\<open>string\<close>, one \<^typ>\<open>char\<close> for each character, so that
  \<open>len\<close> is \<^const>\<open>length\<close>. \<open>is_space\<close> is \<open>str.isspace\<close> on the characters a
  \<^typ>\<open>char\<close> can hold.
\<close>

definition is_space :: "char \<Rightarrow> bool" where
  "is_space c =
     (let n = (of_char c :: nat)
      in (9 \<le> n \<and> n \<le> 13) \<or> (28 \<le> n \<and> n \<le> 32) \<or> n = 133 \<or> n = 160)"

definition lstrip :: "string \<Rightarrow> string" where
  "lstrip s = dropWhile is_space s"

definition rstrip :: "string \<Rightarrow> string" where
  "rstrip s = rev (dropWhile is_space (rev s))"

definition strip :: "string \<Rightarrow> string" where
  "strip s = rstrip (lstrip s)"

fun split_ws_acc :: "string \<Rightarrow> string \<Rightarrow> string list" where
  "split_ws_acc [] w = (if w = [] then [] else [w])"
| "split_ws_acc (c # cs) w =
     (if is_space c then (if w = [] then split_ws_acc cs [] else w # split_ws_acc cs [])
      else split_ws_acc cs (w @ [c]))"

definition split_ws :: "string \<Rightarrow> string list" where
  \<comment> \<open>\<open>s.split()\<close>: the maximal runs of non-whitespace characters\<close>
  "split_ws s = split_ws_acc s []"

fun split_on_acc :: "char \<Rightarrow> string \<Rightarrow> string \<Rightarrow> string list" where
  "split_on_acc sep [] w = [w]"
| "split_on_acc sep (c # cs) w =
     (if c = sep then w # split_on_acc sep cs [] else split_on_acc sep cs (w @ [c]))"

definition split_on :: "char \<Rightarrow> string \<Rightarrow> string list" where
  \<comment> \<open>\<open>s.split(sep)\<close> for a separator of one character\<close>
  "split_on sep s = split_on_acc sep s []"

fun join :: "string \<Rightarrow> string list \<Rightarrow> string" where
  "join sep [] = []"
| "join sep [w] = w"
| "join sep (w # ws) = w @ sep @ join sep ws"

definition endswith_dot :: "string \<Rightarrow> bool" where
  "endswith_dot s = (s \<noteq> [] \<and> last s = CHR ''.'')"

fun str_nat :: "nat \<Rightarrow> string" where
  "str_nat n = (if n < 10 then [char_of (48 + n)] else str_nat (n div 10) @ [char_of (48 + n mod 10)])"

declare str_nat.simps [simp del]

definition str_int :: "int \<Rightarrow> string" where
  "str_int i = (if i < 0 then CHR ''-'' # str_nat (nat (- i)) else str_nat (nat i))"

definition newline :: char where
  "newline = CHR 0x0A"

text \<open>
  A \<open>Dict[str, Any]\<close> is an association list in insertion order over the values the
  pipeline stores. \<open>PSet\<close> holds a \<open>list(set(...))\<close> of strings, whose order the
  interpreter does not fix. Dictionary entries that only hold wall-clock readings
  (\<open>timestamp\<close>, \<open>processing_time_seconds\<close>, \<open>ocr_processing_time\<close>,
  \<open>agentic_processing_time\<close>, \<open>total_processing_time_seconds\<close>) are left out of the
  dictionaries below: no decision reads them.
\<close>

datatype pyval =
    PNone
  | PBool bool
  | PInt int
  | PNum rat
  | PStr string
  | PList "pyval list"
  | PSet "string set"
  | PDict "(string \<times> pyval) list"

type_synonym pydict = "(string \<times> pyval) list"

fun dict_set :: "pydict \<Rightarrow> string \<Rightarrow> pyval \<Rightarrow> pydict" where
  "dict_set [] k v = [(k, v)]"
| "dict_set ((k', v') # d) k v = (if k' = k then (k, v) # d else (k', v') # dict_set d k v)"

definition dict_get :: "pydict \<Rightarrow> string \<Rightarrow> pyval option" where
  "dict_get d k = map_of d k"

definition dict_update :: "pydict \<Rightarrow> pydict \<Rightarrow> pydict" where
  "dict_update d e = fold (\<lambda>(k, v) acc. dict_set acc k v) e d"

definition opt_str :: "string option \<Rightarrow> pyval" where
  "opt_str x = (case x of None \<Rightarrow> PNone | Some s \<Rightarrow> PStr s)"

definition opt_int :: "int option \<Rightarrow> pyval" where
  "opt_int x = (case x of None \<Rightarrow> PNone | Some i \<Rightarrow> PInt i)"

section \<open>Text-Recognition Adapter output (ocr\_service.py)\<close>

record OCRResult =
  ocr_text :: string
  ocr_confidence :: rat
  language_detected :: string
  ocr_page_number :: int
  processing_time_ms :: int
  preprocessing_applied :: "(string \<times> bool) list"

section \<open>Semantic Chunker (agentic\_chunker.py)\<close>

record ChildChunk =
  cc_content :: string
  sequence_number :: int
  semantic_role :: string

record ParentChunk =
  content :: string
  thematic_summary :: string
  confidence_score :: rat
  child_chunks :: "ChildChunk list"

record ChunkingResult =
  parent_chunks :: "ParentChunk list"
  processing_metadata :: pydict

definition max_retries :: nat where
  "max_retries = 3"

definition timeout_seconds :: nat where
  "timeout_seconds = 120"

definition target_parent_chunk_size :: nat where
  "target_parent_chunk_size = 500"

definition max_child_chunks_per_parent :: nat where
  "max_child_chunks_per_parent = 10"

definition model_name :: string where
  "model_name = ''gemini-2.5-flash''"

subsection \<open>\<open>_combine_ocr_results\<close>\<close>

definition page_separator :: "int \<Rightarrow> string" where
  "page_separator n = newline # ''--- Page '' @ str_int n @ '' ---'' @ [newline]"

definition page_parts :: "nat \<Rightarrow> OCRResult \<Rightarrow> string list" where
  \<comment> \<open>what one turn of the loop appends to \<open>combined_parts\<close>; \<open>n\<close> is \<open>len(ocr_results)\<close>\<close>
  "page_parts n r =
     (if strip (ocr_text r) \<noteq> []
      then (if 1 < n then [page_separator (ocr_page_number r)] else [])
           @ [ocr_text r, [newline, newline]]
      else [])"

definition combine_ocr_results :: "OCRResult list \<Rightarrow> string" where
  "combine_ocr_results ocr_results =
     strip (concat (concat (map (page_parts (length ocr_results))
                                (sort_key ocr_page_number ocr_results))))"

subsection \<open>\<open>_create_empty_result\<close> and \<open>_create_simple_fallback_chunks\<close>\<close>

definition create_empty_result :: "string \<Rightarrow> ChunkingResult" where
  "create_empty_result reason =
     \<lparr> parent_chunks = [],
       processing_metadata = [(''status'', PStr ''empty''), (''reason'', PStr reason)] \<rparr>"

definition sentence_children :: "string \<Rightarrow> ChildChunk list" where
  "sentence_children chunk_text =
     (let sentences = filter (\<lambda>s. s \<noteq> []) (map strip (split_on CHR ''.'' chunk_text))
      in map (\<lambda>(i, sentence).
                \<lparr> cc_content = (if \<not> endswith_dot sentence then sentence @ ''.'' else sentence),
                  sequence_number = int i + 1,
                  semantic_role = ''main_point'' \<rparr>)
             (enumerate 0 (take max_child_chunks_per_parent sentences)))"

fun fallback_loop :: "string list \<Rightarrow> ParentChunk list \<Rightarrow> string list \<Rightarrow> ParentChunk list \<times> string list" where
  "fallback_loop [] chunks current_chunk_words = (chunks, current_chunk_words)"
| "fallback_loop (word # ws) chunks current_chunk_words =
     (let current_chunk_words' = current_chunk_words @ [word];
          current_text = join '' '' current_chunk_words'
      in if (target_parent_chunk_size \<le> length current_text \<or> endswith_dot word)
            \<and> 100 \<le> length current_text
         then
           let chunk_text = strip current_text;
               parent_chunk =
                 \<lparr> content = chunk_text,
                   thematic_summary = ''Content section '' @ str_nat (length chunks + 1),
                   confidence_score = 0.6,
                   child_chunks = sentence_children chunk_text \<rparr>
           in fallback_loop ws (chunks @ [parent_chunk]) []
         else fallback_loop ws chunks current_chunk_words')"

definition remaining_chunk :: "string list \<Rightarrow> ParentChunk list" where
  \<comment> \<open>"Handle remaining words"\<close>
  "remaining_chunk current_chunk_words =
     (if current_chunk_words \<noteq> [] then
        let remaining_text = strip (join '' '' current_chunk_words)
        in if 50 \<le> length remaining_text
           then [\<lparr> content = remaining_text,
                    thematic_summary = ''Final content section'',
                    confidence_score = 0.5,
                    child_chunks = [\<lparr> cc_content = remaining_text, sequence_number = 1,
                                      semantic_role = ''conclusion'' \<rparr>] \<rparr>]
           else []
      else [])"

definition create_simple_fallback_chunks :: "string \<Rightarrow> ChunkingResult" where
  "create_simple_fallback_chunks text =
     (let words = split_ws text
      in if words = [] then create_empty_result ''No words found''
         else
           let (chunks0, current_chunk_words) = fallback_loop words [] [];
               chunks = chunks0 @ remaining_chunk current_chunk_words
           in \<lparr> parent_chunks = chunks,
                processing_metadata =
                  [(''status'', PStr ''fallback''),
                   (''method'', PStr ''simple_splitting''),
                   (''total_chunks'', PInt (int (length chunks)))] \<rparr>)"

definition agentic_fallback_result :: "OCRResult list \<Rightarrow> string \<Rightarrow> ChunkingResult" where
  \<comment> \<open>\<open>AgenticChunker._create_fallback_result\<close>\<close>
  "agentic_fallback_result ocr_results error =
     (let combined_text = combine_ocr_results ocr_results
      in if combined_text = [] then create_empty_result (''Fallback failed: '' @ error)
         else create_simple_fallback_chunks combined_text)"

subsection \<open>\<open>_prepare_context\<close> and \<open>_assess_chunk_quality\<close>\<close>

definition avg_confidence :: "OCRResult list \<Rightarrow> rat" where
  "avg_confidence ocr_results = sum_list (map ocr_confidence ocr_results) / of_nat (length ocr_results)"

fun count_language :: "(string \<times> nat) list \<Rightarrow> string \<Rightarrow> (string \<times> nat) list" where
  "count_language [] lang = [(lang, 1)]"
| "count_language ((l, c) # d) lang =
     (if l = lang then (l, c + 1) # d else (l, c) # count_language d lang)"

fun first_max :: "(string \<times> nat) \<Rightarrow> (string \<times> nat) list \<Rightarrow> string \<times> nat" where
  "first_max best [] = best"
| "first_max best (x # xs) = first_max (if snd best < snd x then x else best) xs"

definition primary_language :: "string \<Rightarrow> OCRResult list \<Rightarrow> string" where
  \<comment> \<open>the language counted most often, the first of them on a tie; \<open>dflt\<close> when there is
      no result\<close>
  "primary_language dflt ocr_results =
     (case fold (\<lambda>r d. count_language d (language_detected r)) ocr_results [] of
        [] \<Rightarrow> dflt
      | x # xs \<Rightarrow> fst (first_max x xs))"

definition prepare_context :: "string \<Rightarrow> OCRResult list \<Rightarrow> pydict option \<Rightarrow> string + pydict" where
  "prepare_context text ocr_results page_context =
     (if ocr_results = [] then Inl ''division by zero''
      else
        let avg = avg_confidence ocr_results;
            total_chars = int (length text);
            context =
              [(''text_length'', PInt total_chars),
               (''page_count'', PInt (int (length ocr_results))),
               (''average_ocr_confidence'', PNum avg),
               (''primary_language'', PStr (primary_language ''unknown'' ocr_results)),
               (''estimated_chunks_needed'',
                  PInt (max 1 (total_chars div int target_parent_chunk_size))),
               (''ocr_quality'',
                  PStr (if 80 < avg then ''high'' else if 60 < avg then ''medium'' else ''low''))]
        in Inr (case page_context of
                  None \<Rightarrow> context
                | Some pc \<Rightarrow> if pc \<noteq> [] then dict_update context pc else context))"

definition chunk_issues :: "ParentChunk \<Rightarrow> string list" where
  "chunk_issues chunk =
     (if length (content chunk) < 50 then [''chunk_too_small'']
      else if 1500 < length (content chunk) then [''chunk_too_large'']
      else [])
     @ (if child_chunks chunk = [] then [''no_child_chunks'']
        else if max_child_chunks_per_parent < length (child_chunks chunk)
        then [''too_many_child_chunks'']
        else [])"

definition assess_chunk_quality :: "ChunkingResult \<Rightarrow> pydict" where
  "assess_chunk_quality result =
     (if parent_chunks result = []
      then [(''overall_quality'', PStr ''poor''),
            (''issues'', PList [PStr ''no_chunks_created''])]
      else
        let ps = parent_chunks result;
            issues = concat (map chunk_issues ps);
            avg_quality = sum_list (map confidence_score ps) / of_nat (length ps);
            overall_quality =
              (if 0.8 < avg_quality \<and> issues = [] then ''excellent''
               else if 0.6 < avg_quality \<and> length issues \<le> 2 then ''good''
               else if 0.4 < avg_quality then ''acceptable''
               else ''poor'')
        in [(''overall_quality'', PStr overall_quality),
            (''average_confidence'', PNum avg_quality),
            (''issues'', PSet (set issues)),
            (''requires_fallback'',
               PBool (overall_quality = ''poor'' \<or> ''no_chunks_created'' \<in> set issues))])"

subsection \<open>The agent call with retries\<close>

text \<open>
  The generative agent is an external collaborator. For one document it is given by what
  its call does at each attempt: it times out, it raises, it returns a run result whose
  \<open>data\<close> is a \<open>ChunkingResult\<close>, or it returns something else. The prompt built
  from the text and the context goes to the agent only.
\<close>

datatype AgentOutcome =
    AgentTimeout
  | AgentError string
  | AgentData ChunkingResult
  | AgentOther

datatype AgentReturn = ReturnedData ChunkingResult | ReturnedOther

fun retry_loop ::
    "(nat \<Rightarrow> AgentOutcome) \<Rightarrow> pydict \<Rightarrow> nat list \<Rightarrow> string option \<Rightarrow> string + AgentReturn" where
  "retry_loop agent context [] last_error =
     Inl (''All chunking attempts failed. Last error: ''
          @ (case last_error of None \<Rightarrow> ''None'' | Some e \<Rightarrow> e))"
| "retry_loop agent context (attempt # rest) last_error =
     (case agent attempt of
        AgentData r \<Rightarrow>
          Inr (ReturnedData (r\<lparr> processing_metadata :=
                 dict_update (processing_metadata r)
                   [(''attempt_number'', PInt (int attempt)), (''model_used'', PStr model_name),
                    (''context'', PDict context)] \<rparr>))
      | AgentOther \<Rightarrow> Inr ReturnedOther
      | AgentTimeout \<Rightarrow>
          retry_loop agent context rest
            (Some (''Chunking timeout after '' @ str_nat timeout_seconds @ ''s''))
      | AgentError e \<Rightarrow> retry_loop agent context rest (Some e))"

definition chunk_with_retry :: "(nat \<Rightarrow> AgentOutcome) \<Rightarrow> pydict \<Rightarrow> string + AgentReturn" where
  "chunk_with_retry agent context = retry_loop agent context [1..<max_retries + 1] None"

definition validate_and_enhance_result :: "AgentReturn \<Rightarrow> string \<Rightarrow> string + ChunkingResult" where
  "validate_and_enhance_result ret original_text =
     (case ret of
        ReturnedOther \<Rightarrow> Inl ''object has no attribute parent_chunks''
      | ReturnedData result \<Rightarrow>
          if parent_chunks result = [] then Inr (create_simple_fallback_chunks original_text)
          else
            let ps = parent_chunks result;
                total_chunk_length = sum_list (map (\<lambda>c. length (content c)) ps);
                coverage_ratio =
                  (if original_text \<noteq> [] then of_nat total_chunk_length / of_nat (length original_text)
                   else (0::rat))
            in Inr (result\<lparr> processing_metadata :=
                 dict_update (processing_metadata result)
                   [(''total_parent_chunks'', PInt (int (length ps))),
                    (''total_child_chunks'', PInt (int (sum_list (map (\<lambda>c. length (child_chunks c)) ps)))),
                    (''coverage_ratio'', PNum coverage_ratio),
                    (''average_parent_chunk_size'', PNum (of_nat total_chunk_length / of_nat (length ps))),
                    (''average_confidence'', PNum (sum_list (map confidence_score ps) / of_nat (length ps))),
                    (''quality_assessment'', PDict (assess_chunk_quality result))] \<rparr>))"

definition chunk_ocr_content ::
    "(nat \<Rightarrow> AgentOutcome) \<Rightarrow> OCRResult list \<Rightarrow> pydict option \<Rightarrow> ChunkingResult" where
  \<comment> \<open>the \<open>try\<close> block, and the handler that returns the deterministic fallback\<close>
  "chunk_ocr_content agent ocr_results page_context =
     (let combined_text = combine_ocr_results ocr_results;
          attempt =
            (if strip combined_text = [] then Inr (create_empty_result ''No meaningful text content'')
             else case prepare_context combined_text ocr_results page_context of
                    Inl e \<Rightarrow> Inl e
                  | Inr context \<Rightarrow>
                      (case chunk_with_retry agent context of
                         Inl e \<Rightarrow> Inl e
                       | Inr ret \<Rightarrow> validate_and_enhance_result ret combined_text))
      in case attempt of
           Inr r \<Rightarrow> r
         | Inl e \<Rightarrow> agentic_fallback_result ocr_results e)"

section \<open>Structural Chunker (structural\_chunker.py)\<close>

record StructuralChunkData =
  sc_content :: string
  sc_page_number :: "int option"
  sc_chapter_title :: "string option"
  sc_section_title :: "string option"
  sc_chunk_size :: int
  sc_overlap_size :: "int option"

record StructuralChunkingResult =
  sr_parent_chunks :: "StructuralChunkData list"
  sr_child_chunks :: "StructuralChunkData list list"
  sr_processing_metadata :: pydict

subsection \<open>\<open>validate_chunks\<close>\<close>

definition list_min :: "int list \<Rightarrow> int" where
  "list_min xs = fold min (tl xs) (hd xs)"

definition list_max :: "int list \<Rightarrow> int" where
  "list_max xs = fold max (tl xs) (hd xs)"

definition validate_chunks :: "StructuralChunkData list \<Rightarrow> pydict" where
  "validate_chunks chunks =
     (if chunks = [] then [(''valid'', PBool False), (''reason'', PStr ''no_chunks_created'')]
      else
        let sizes = map sc_chunk_size chunks;
            avg_size = of_int (sum_list sizes) / of_nat (length sizes);
            too_small = length (filter (\<lambda>s. s < 100) sizes);
            too_large = length (filter (\<lambda>s. 2000 < s) sizes);
            validation_result =
              [(''valid'', PBool True),
               (''total_chunks'', PInt (int (length chunks))),
               (''average_size'', PNum avg_size),
               (''min_size'', PInt (list_min sizes)),
               (''max_size'', PInt (list_max sizes)),
               (''chunks_too_small'', PInt (int too_small)),
               (''chunks_too_large'', PInt (int too_large)),
               (''size_distribution'',
                  PStr (if (of_nat (too_small + too_large) :: rat) < of_nat (length sizes) * 0.2
                        then ''good'' else ''poor''))]
        in if of_nat (length sizes) * 0.3 < (of_nat (too_small + too_large) :: rat)
           then dict_set (dict_set validation_result ''valid'' (PBool False))
                         ''reason'' (PStr ''poor_size_distribution'')
           else validation_result)"

section \<open>Chunking Coordinator (chunking\_service.py)\<close>

record HybridChunkingResult =
  document_analysis :: DocumentAnalysisResult
  processing_path_used :: ProcessingPath
  fallback_occurred :: bool
  fallback_reason :: "string option"
  h_parent_chunks :: "pydict list"
  h_child_chunks :: "pydict list"
  processing_time_seconds :: rat
  ocr_metrics :: "pydict option"
  agentic_metrics :: "pydict option"
  quality_score :: rat
  h_confidence_score :: rat
  metadata :: pydict

text \<open>
  \<open>HybridChunkingResult\<close> is a pydantic model: its constructor takes keyword arguments and
  raises \<open>ValidationError\<close> when a field without a default is not among them. The fields
  without a default are \<open>document_analysis\<close>, \<open>processing_path_used\<close>, \<open>parent_chunks\<close>,
  \<open>child_chunks\<close>, \<open>processing_time_seconds\<close>, \<open>quality_score\<close> and
  \<open>confidence_score\<close>; in the keyword record they are \<open>None\<close> when the call does not pass
  them. The other four hold the value passed or the default.
\<close>

record HybridChunkingResult_kwargs =
  kw_document_analysis :: "DocumentAnalysisResult option"
  kw_processing_path_used :: "ProcessingPath option"
  kw_fallback_occurred :: bool
  kw_fallback_reason :: "string option"
  kw_parent_chunks :: "pydict list option"
  kw_child_chunks :: "pydict list option"
  kw_processing_time_seconds :: "rat option"
  kw_ocr_metrics :: "pydict option"
  kw_agentic_metrics :: "pydict option"
  kw_quality_score :: "rat option"
  kw_confidence_score :: "rat option"
  kw_metadata :: pydict

definition validation_error :: string where
  "validation_error = ''validation errors for HybridChunkingResult: Field required''"

definition new_HybridChunkingResult :: "HybridChunkingResult_kwargs \<Rightarrow> string + HybridChunkingResult" where
  "new_HybridChunkingResult kw =
     (case (kw_document_analysis kw, kw_processing_path_used kw, kw_parent_chunks kw,
            kw_child_chunks kw, kw_processing_time_seconds kw, kw_quality_score kw,
            kw_confidence_score kw) of
        (Some da, Some path, Some parents, Some children, Some seconds, Some quality, Some conf) \<Rightarrow>
          Inr \<lparr> document_analysis = da,
                processing_path_used = path,
                fallback_occurred = kw_fallback_occurred kw,
                fallback_reason = kw_fallback_reason kw,
                h_parent_chunks = parents,
                h_child_chunks = children,
                processing_time_seconds = seconds,
                ocr_metrics = kw_ocr_metrics kw,
                agentic_metrics = kw_agentic_metrics kw,
                quality_score = quality,
                h_confidence_score = conf,
                metadata = kw_metadata kw \<rparr>
      | _ \<Rightarrow> Inl validation_error)"

text \<open>
  The file at \<open>pdf_path\<close>, as the collaborators of the coordinator see it: what the
  analyzer reads, what the structural chunker's \<open>process_document\<close> returns or raises,
  what the OCR service's \<open>extract_text_from_pdf\<close> returns or raises, and what the
  generative agent does at each attempt.
\<close>

record PdfFile =
  pdf_pages :: Pdf
  pdf_structural :: "string + StructuralChunkingResult"
  pdf_ocr :: "string + OCRResult list"
  pdf_agent :: "nat \<Rightarrow> AgentOutcome"

record ChunkingService =
  enable_fallback :: bool
  quality_threshold :: rat
  max_processing_time :: nat

definition default_service :: ChunkingService where
  \<comment> \<open>\<open>ChunkingService.__init__\<close>\<close>
  "default_service = \<lparr> enable_fallback = True, quality_threshold = 0.6, max_processing_time = 3600 \<rparr>"

definition type_name :: "DocumentType \<Rightarrow> string" where
  "type_name t = (case t of NATIVE \<Rightarrow> ''native'' | SCANNED \<Rightarrow> ''scanned'' | MIXED \<Rightarrow> ''mixed'')"

subsection \<open>The structural path, up to its handler\<close>

text \<open>
  \<open>StructuralChunkingResult\<close> is a pydantic model too, and the path reads it with
  \<open>structural_result['parent_chunks']\<close> and \<open>structural_result['child_chunks'][i]\<close>. A
  pydantic model has no \<open>__getitem__\<close>: the subscript raises \<open>TypeError\<close>.
\<close>

definition not_subscriptable :: string where
  "not_subscriptable = ''StructuralChunkingResult object is not subscriptable''"

definition model_getitem :: "StructuralChunkingResult \<Rightarrow> string \<Rightarrow> string + 'a" where
  \<comment> \<open>\<open>obj[key]\<close> on a pydantic model\<close>
  "model_getitem obj key = Inl not_subscriptable"

definition structural_parent_data :: "int \<Rightarrow> StructuralChunkData \<Rightarrow> pydict" where
  "structural_parent_data textbook_id parent_chunk =
     [(''content'', PStr (sc_content parent_chunk)),
      (''document_type'', PStr ''native''),
      (''processing_path'', PStr ''structural''),
      (''textbook_id'', PInt textbook_id),
      (''page_number'', opt_int (sc_page_number parent_chunk)),
      (''chapter_title'', opt_str (sc_chapter_title parent_chunk)),
      (''chunk_size'', PInt (int (length (sc_content parent_chunk)))),
      (''processing_metadata'',
         PDict [(''chunking_method'', PStr ''MarkdownHeaderTextSplitter''),
                (''confidence'', PNum 0.9)])]"

definition structural_child_data :: "nat \<Rightarrow> StructuralChunkData \<Rightarrow> pydict" where
  "structural_child_data j child_chunk =
     [(''content'', PStr (sc_content child_chunk)),
      (''sequence_number'', PInt (int j + 1)),
      (''embedding_model'', PStr ''bge-m3''),
      (''embedding_dimension'', PInt 1024),
      (''language_code'', PStr ''en''),
      (''chunk_size'', PInt (int (length (sc_content child_chunk)))),
      (''processing_metadata'',
         PDict [(''chunking_method'', PStr ''RecursiveCharacterTextSplitter''),
                (''overlap_size'', opt_int (sc_overlap_size child_chunk))])]"

fun structural_loop ::
    "StructuralChunkingResult \<Rightarrow> int \<Rightarrow> (nat \<times> StructuralChunkData) list \<Rightarrow> pydict list \<Rightarrow> pydict list
       \<Rightarrow> string + pydict list \<times> pydict list" where
  \<comment> \<open>the loop over \<open>enumerate(parents)\<close> with its two accumulators\<close>
  "structural_loop structural_result textbook_id [] parent_chunks_data child_chunks_data =
     Inr (parent_chunks_data, child_chunks_data)"
| "structural_loop structural_result textbook_id ((i, parent_chunk) # rest) parent_chunks_data child_chunks_data =
     (case model_getitem structural_result ''child_chunks'' of
        Inl e \<Rightarrow> Inl e
      | Inr (groups :: StructuralChunkData list list) \<Rightarrow>
          if length groups \<le> i then Inl ''list index out of range''
          else structural_loop structural_result textbook_id rest
                 (parent_chunks_data @ [structural_parent_data textbook_id parent_chunk])
                 (child_chunks_data
                  @ map (\<lambda>(j, child_chunk). structural_child_data j child_chunk)
                        (enumerate 0 (groups ! i))))"

definition structural_try :: "PdfFile \<Rightarrow> DocumentAnalysisResult \<Rightarrow> int \<Rightarrow> string + HybridChunkingResult" where
  \<comment> \<open>the \<open>try\<close> block of \<open>_process_structural_path\<close>\<close>
  "structural_try pdf_path doc_analysis textbook_id =
     (case pdf_structural pdf_path of
        Inl e \<Rightarrow> Inl e
      | Inr structural_result \<Rightarrow>
          (case model_getitem structural_result ''parent_chunks'' of
             Inl e \<Rightarrow> Inl e
           | Inr (parents :: StructuralChunkData list) \<Rightarrow>
               (case structural_loop structural_result textbook_id (enumerate 0 parents) [] [] of
                  Inl e \<Rightarrow> Inl e
                | Inr (parent_chunks_data, child_chunks_data) \<Rightarrow>
                    new_HybridChunkingResult
                      \<lparr> kw_document_analysis = None,
                        kw_processing_path_used = Some STRUCTURAL,
                        kw_fallback_occurred = False,
                        kw_fallback_reason = None,
                        kw_parent_chunks = Some parent_chunks_data,
                        kw_child_chunks = Some child_chunks_data,
                        kw_processing_time_seconds = None,
                        kw_ocr_metrics = None,
                        kw_agentic_metrics = None,
                        kw_quality_score = Some 0.85,
                        kw_confidence_score = Some (confidence doc_analysis),
                        kw_metadata =
                          [(''method'', PStr ''structural''),
                           (''total_parent_chunks'', PInt (int (length parent_chunks_data))),
                           (''total_child_chunks'', PInt (int (length child_chunks_data)))] \<rparr>)))"

subsection \<open>The OCR and agentic path, up to its handler\<close>

definition detect_primary_language :: "OCRResult list \<Rightarrow> string" where
  "detect_primary_language ocr_results = primary_language ''en'' ocr_results"

definition agentic_parent_data :: "OCRResult list \<Rightarrow> int \<Rightarrow> ParentChunk \<Rightarrow> pydict" where
  "agentic_parent_data ocr_results textbook_id parent_chunk =
     (let avg_ocr_confidence = (if ocr_results \<noteq> [] then avg_confidence ocr_results else 0)
      in [(''content'', PStr (content parent_chunk)),
          (''document_type'', PStr ''scanned''),
          (''processing_path'', PStr ''agentic''),
          (''ocr_confidence'', PInt (py_int avg_ocr_confidence)),
          (''ocr_language_detected'', PStr (detect_primary_language ocr_results)),
          (''textbook_id'', PInt textbook_id),
          (''chunk_size'', PInt (int (length (content parent_chunk)))),
          (''processing_metadata'',
             PDict [(''chunking_method'', PStr ''agentic''),
                    (''thematic_summary'', PStr (thematic_summary parent_chunk)),
                    (''confidence'', PNum (confidence_score parent_chunk)),
                    (''ocr_pages'', PInt (int (length ocr_results)))])])"

definition agentic_child_data :: "OCRResult list \<Rightarrow> ChildChunk \<Rightarrow> pydict" where
  "agentic_child_data ocr_results child_chunk =
     (let avg_ocr_confidence = (if ocr_results \<noteq> [] then avg_confidence ocr_results else 0)
      in [(''content'', PStr (cc_content child_chunk)),
          (''sequence_number'', PInt (sequence_number child_chunk)),
          (''embedding_model'', PStr ''bge-m3''),
          (''embedding_dimension'', PInt 1024),
          (''language_code'', PStr (detect_primary_language ocr_results)),
          (''chunk_size'', PInt (int (length (cc_content child_chunk)))),
          (''processing_metadata'',
             PDict [(''chunking_method'', PStr ''agentic''),
                    (''semantic_role'', PStr (semantic_role child_chunk)),
                    (''ocr_confidence'', PNum avg_ocr_confidence)])])"

definition convert_agentic_result_to_db_format ::
    "ChunkingResult \<Rightarrow> OCRResult list \<Rightarrow> int \<Rightarrow> pydict list \<times> pydict list" where
  "convert_agentic_result_to_db_format chunking_result ocr_results textbook_id =
     (map (agentic_parent_data ocr_results textbook_id) (parent_chunks chunking_result),
      concat (map (\<lambda>parent_chunk. map (agentic_child_data ocr_results) (child_chunks parent_chunk))
                  (parent_chunks chunking_result)))"

definition calculate_ocr_metrics :: "OCRResult list \<Rightarrow> pydict" where
  "calculate_ocr_metrics ocr_results =
     (if ocr_results = [] then []
      else
        let confidences = map ocr_confidence ocr_results;
            processing_times = map processing_time_ms ocr_results
        in [(''pages_processed'', PInt (int (length ocr_results))),
            (''average_confidence'', PNum (sum_list confidences / of_nat (length confidences))),
            (''min_confidence'', PNum (fold min (tl confidences) (hd confidences))),
            (''max_confidence'', PNum (fold max (tl confidences) (hd confidences))),
            (''low_confidence_pages'', PInt (int (length (filter (\<lambda>c. c < 70) confidences)))),
            (''total_processing_time_ms'', PInt (sum_list processing_times)),
            (''average_processing_time_ms'',
               PNum (of_int (sum_list processing_times) / of_nat (length processing_times))),
            (''preprocessing_applied'',
               PBool (list_ex (\<lambda>r. case map_of (preprocessing_applied r) ''noise_reduction'' of
                                       None \<Rightarrow> False | Some b \<Rightarrow> b) ocr_results))])"

definition dict_get_default :: "pydict \<Rightarrow> string \<Rightarrow> pyval \<Rightarrow> pyval" where
  "dict_get_default d k v = (case dict_get d k of None \<Rightarrow> v | Some x \<Rightarrow> x)"

definition calculate_agentic_metrics :: "ChunkingResult \<Rightarrow> pydict" where
  "calculate_agentic_metrics chunking_result =
     (let md = processing_metadata chunking_result;
          ps = parent_chunks chunking_result
      in [(''total_parent_chunks'', PInt (int (length ps))),
          (''total_child_chunks'', PInt (int (sum_list (map (\<lambda>c. length (child_chunks c)) ps)))),
          (''average_chunk_confidence'',
             PNum (if ps \<noteq> [] then sum_list (map confidence_score ps) / of_nat (length ps) else 0)),
          (''tokens_used'', dict_get_default md ''tokens_used'' (PInt 0)),
          (''api_calls_made'', dict_get_default md ''api_calls_made'' (PInt 0)),
          (''quality_assessment'', dict_get_default md ''quality_assessment'' (PDict [])),
          (''fallback_used'', PBool (dict_get md ''status'' = Some (PStr ''fallback'')))])"

definition calculate_quality_score :: "OCRResult list \<Rightarrow> ChunkingResult \<Rightarrow> rat" where
  "calculate_quality_score ocr_results chunking_result =
     (let ps = parent_chunks chunking_result;
          scores =
            (if ocr_results \<noteq> [] then [min 1 (avg_confidence ocr_results / 100) * 0.4] else [])
            @ (if ps \<noteq> [] then
                 [sum_list (map confidence_score ps) / of_nat (length ps) * 0.4]
                 @ (if 100 < sum_list (map (\<lambda>c. length (content c)) ps) then [0.2] else [])
               else [])
      in if scores \<noteq> [] then sum_list scores else 0.3)"

definition ocr_agentic_kwargs ::
    "PdfFile \<Rightarrow> DocumentAnalysisResult \<Rightarrow> int \<Rightarrow> string + HybridChunkingResult_kwargs" where
  \<comment> \<open>the \<open>try\<close> block of \<open>_process_ocr_agentic_path\<close> up to the keyword arguments of its
      \<open>HybridChunkingResult(...)\<close>\<close>
  "ocr_agentic_kwargs pdf_path doc_analysis textbook_id =
     (case pdf_ocr pdf_path of
        Inl e \<Rightarrow> Inl e
      | Inr ocr_results \<Rightarrow>
          if ocr_results = [] then Inl ''OCR processing produced no results''
          else
            let page_context =
                  [(''document_type'', PStr (type_name (document_type doc_analysis))),
                   (''total_pages'', PInt (total_pages doc_analysis)),
                   (''textbook_id'', PInt textbook_id)];
                chunking_result =
                  chunk_ocr_content (pdf_agent pdf_path) ocr_results (Some page_context);
                (parent_chunks_data, child_chunks_data) =
                  convert_agentic_result_to_db_format chunking_result ocr_results textbook_id;
                quality = calculate_quality_score ocr_results chunking_result
            in Inr \<lparr> kw_document_analysis = None,
                     kw_processing_path_used = Some OCR_AGENTIC,
                     kw_fallback_occurred = False,
                     kw_fallback_reason = None,
                     kw_parent_chunks = Some parent_chunks_data,
                     kw_child_chunks = Some child_chunks_data,
                     kw_processing_time_seconds = None,
                     kw_ocr_metrics = Some (calculate_ocr_metrics ocr_results),
                     kw_agentic_metrics = Some (calculate_agentic_metrics chunking_result),
                     kw_quality_score = Some quality,
                     kw_confidence_score = Some (min (confidence doc_analysis) quality),
                     kw_metadata =
                       [(''method'', PStr ''ocr_agentic''),
                        (''total_parent_chunks'', PInt (int (length parent_chunks_data))),
                        (''total_child_chunks'', PInt (int (length child_chunks_data)))] \<rparr>)"

definition ocr_agentic_try :: "PdfFile \<Rightarrow> DocumentAnalysisResult \<Rightarrow> int \<Rightarrow> string + HybridChunkingResult" where
  \<comment> \<open>the \<open>try\<close> block of \<open>_process_ocr_agentic_path\<close>\<close>
  "ocr_agentic_try pdf_path doc_analysis textbook_id =
     (case ocr_agentic_kwargs pdf_path doc_analysis textbook_id of
        Inl e \<Rightarrow> Inl e
      | Inr kw \<Rightarrow> new_HybridChunkingResult kw)"

subsection \<open>The two paths with their handlers\<close>

text \<open>
  Each path's handler calls the other path, whose handler calls the first again: the
  two functions are mutually recursive, and nothing but the interpreter's bound on nested
  calls ends the recursion when both \<open>try\<close> blocks keep raising. The first argument is the
  number of nested path calls the interpreter still allows; at zero the call raises
  \<open>RecursionError\<close>, which is an \<open>Exception\<close> like any other. An exception raised inside
  a handler leaves the function.
\<close>

definition recursion_error :: string where
  "recursion_error = ''maximum recursion depth exceeded''"

fun process_structural_path ::
      "nat \<Rightarrow> ChunkingService \<Rightarrow> PdfFile \<Rightarrow> DocumentAnalysisResult \<Rightarrow> int \<Rightarrow> string + HybridChunkingResult"
  and process_ocr_agentic_path ::
      "nat \<Rightarrow> ChunkingService \<Rightarrow> PdfFile \<Rightarrow> DocumentAnalysisResult \<Rightarrow> int \<Rightarrow> string + HybridChunkingResult"
where
  "process_structural_path 0 self pdf_path doc_analysis textbook_id = Inl recursion_error"
| "process_structural_path (Suc depth) self pdf_path doc_analysis textbook_id =
     (case structural_try pdf_path doc_analysis textbook_id of
        Inr r \<Rightarrow> Inr r
      | Inl e \<Rightarrow>
          if enable_fallback self then
            (case process_ocr_agentic_path depth self pdf_path doc_analysis textbook_id of
               Inl e' \<Rightarrow> Inl e'
             | Inr result \<Rightarrow>
                 Inr (result\<lparr> fallback_occurred := True,
                              fallback_reason := Some (''Structural processing failed: '' @ e) \<rparr>))
          else Inl e)"
| "process_ocr_agentic_path 0 self pdf_path doc_analysis textbook_id = Inl recursion_error"
| "process_ocr_agentic_path (Suc depth) self pdf_path doc_analysis textbook_id =
     (case ocr_agentic_try pdf_path doc_analysis textbook_id of
        Inr r \<Rightarrow> Inr r
      | Inl e \<Rightarrow>
          if enable_fallback self then
            (case process_structural_path depth self pdf_path doc_analysis textbook_id of
               Inl e' \<Rightarrow> Inl e'
             | Inr result \<Rightarrow>
                 Inr (result\<lparr> fallback_occurred := True,
                              fallback_reason := Some (''OCR+Agentic processing failed: '' @ e) \<rparr>))
          else Inl e)"

definition route_processing ::
    "nat \<Rightarrow> ChunkingService \<Rightarrow> PdfFile \<Rightarrow> ProcessingPath \<Rightarrow> DocumentAnalysisResult \<Rightarrow> int
       \<Rightarrow> string + HybridChunkingResult" where
  "route_processing depth self pdf_path path doc_analysis textbook_id =
     (if path = STRUCTURAL
      then process_structural_path depth self pdf_path doc_analysis textbook_id
      else process_ocr_agentic_path depth self pdf_path doc_analysis textbook_id)"

subsection \<open>\<open>process_document\<close> and \<open>_create_fallback_result\<close>\<close>

text \<open>
  \<open>_create_fallback_result\<close> imports \<open>DocumentType\<close> and \<open>ProcessingPath\<close> inside its
  \<open>except:\<close> clause. The import makes both names local to the function, bound only when
  that clause has run, that is only when the analyzer has raised. The call
  \<open>HybridChunkingResult(document_analysis=..., processing_path_used=ProcessingPath.OCR_AGENTIC, ...)\<close>
  after the \<open>try\<close> statement reads the local name: it raises \<open>UnboundLocalError\<close> when the
  analyzer has returned.
\<close>

definition unbound_local_error :: string where
  "unbound_local_error =
     ''cannot access local variable ProcessingPath where it is not associated with a value''"

definition coordinator_fallback_result ::
    "PdfFile \<Rightarrow> int \<Rightarrow> string \<Rightarrow> rat \<Rightarrow> string + HybridChunkingResult" where
  \<comment> \<open>\<open>ChunkingService._create_fallback_result\<close>; \<open>local_ProcessingPath\<close> tells whether the
      import has bound the local name\<close>
  "coordinator_fallback_result pdf_path textbook_id error processing_time =
     (let (doc_analysis, local_ProcessingPath) =
            (case analyze_pdf_type (pdf_pages pdf_path) of
               Inr a \<Rightarrow> (a, False)
             | Inl _ \<Rightarrow>
                 (\<lparr> document_type = SCANNED,
                    processing_path = OCR_AGENTIC,
                    confidence = 0.1,
                    total_pages = 1,
                    pages_with_text = 0,
                    pages_requiring_ocr = 1,
                    page_analyses = [],
                    analysis_method = ''fallback'' \<rparr>, True))
      in if \<not> local_ProcessingPath then Inl unbound_local_error
         else new_HybridChunkingResult
                \<lparr> kw_document_analysis = Some doc_analysis,
                  kw_processing_path_used = Some OCR_AGENTIC,
                  kw_fallback_occurred = True,
                  kw_fallback_reason = Some error,
                  kw_parent_chunks = Some [],
                  kw_child_chunks = Some [],
                  kw_processing_time_seconds = Some processing_time,
                  kw_ocr_metrics = None,
                  kw_agentic_metrics = None,
                  kw_quality_score = Some 0.1,
                  kw_confidence_score = Some 0.1,
                  kw_metadata =
                    [(''method'', PStr ''fallback''),
                     (''error'', PStr error),
                     (''status'', PStr ''failed'')] \<rparr>)"

definition process_document_try ::
    "nat \<Rightarrow> ChunkingService \<Rightarrow> PdfFile \<Rightarrow> int \<Rightarrow> ProcessingPath option \<Rightarrow> rat
       \<Rightarrow> string + HybridChunkingResult" where
  \<comment> \<open>the \<open>try\<close> block of \<open>process_document\<close>; \<open>elapsed\<close> is \<open>time.time() - start_time\<close>\<close>
  "process_document_try depth self pdf_path textbook_id force_processing_path elapsed =
     (case analyze_pdf_type (pdf_pages pdf_path) of
        Inl e \<Rightarrow> Inl e
      | Inr doc_analysis \<Rightarrow>
          let path = (case force_processing_path of
                        Some p \<Rightarrow> p
                      | None \<Rightarrow> processing_path doc_analysis)
          in (case route_processing depth self pdf_path path doc_analysis textbook_id of
                Inl e \<Rightarrow> Inl e
              | Inr result \<Rightarrow>
                  Inr (result\<lparr> processing_time_seconds := elapsed,
                               document_analysis := doc_analysis,
                               processing_path_used := path \<rparr>)))"

definition process_document ::
    "nat \<Rightarrow> ChunkingService \<Rightarrow> PdfFile \<Rightarrow> int \<Rightarrow> ProcessingPath option \<Rightarrow> rat
       \<Rightarrow> string + HybridChunkingResult" where
  \<comment> \<open>\<open>depth\<close> is the number of nested path calls the interpreter allows; the handler
      returns what \<open>_create_fallback_result\<close> returns and raises what it raises\<close>
  "process_document depth self pdf_path textbook_id force_processing_path elapsed =
     (case process_document_try depth self pdf_path textbook_id force_processing_path elapsed of
        Inr result \<Rightarrow> Inr result
      | Inl e \<Rightarrow> coordinator_fallback_result pdf_path textbook_id e elapsed)"

section \<open>Sample documents\<close>

definition blank_scan_page :: Page where
  "blank_scan_page = \<lparr> pg_text_length = 0, pg_area = 500000, pg_meaningful = False, pg_readability = 0 \<rparr>"

definition ocr_page :: "int \<Rightarrow> string \<Rightarrow> OCRResult" where
  "ocr_page n t =
     \<lparr> ocr_text = t, ocr_confidence = 90, language_detected = ''en'', ocr_page_number = n,
       processing_time_ms = 40, preprocessing_applied = [] \<rparr>"

definition short_scan_pdf :: PdfFile where
  \<comment> \<open>one scanned page on which OCR reads two letters; no embedded text; the agent times out\<close>
  "short_scan_pdf =
     \<lparr> pdf_pages = Inr [Inr blank_scan_page],
       pdf_structural = Inl ''No structured content could be extracted from PDF'',
       pdf_ocr = Inr [ocr_page 1 ''hi''],
       pdf_agent = (\<lambda>attempt. AgentTimeout) \<rparr>"

definition unreadable_pdf :: PdfFile where
  \<comment> \<open>a file no collaborator can open\<close>
  "unreadable_pdf =
     \<lparr> pdf_pages = Inl ''cannot open file'',
       pdf_structural = Inl ''cannot open file'',
       pdf_ocr = Inl ''cannot open file'',
       pdf_agent = (\<lambda>attempt. AgentTimeout) \<rparr>"

definition native_analysis :: PageAnalysis where
  "native_analysis =
     \<lparr> page_number = 1, has_text = True, text_density = 1.8, text_length = 900,
       estimated_readability = 0.5, requires_ocr = False \<rparr>"

definition scanned_analysis :: PageAnalysis where
  "scanned_analysis =
     \<lparr> page_number = 1, has_text = False, text_density = 0, text_length = 0,
       estimated_readability = 0, requires_ocr = True \<rparr>"

definition sized_chunk :: "int \<Rightarrow> StructuralChunkData" where
  "sized_chunk n =
     \<lparr> sc_content = [], sc_page_number = None, sc_chapter_title = None, sc_section_title = None,
       sc_chunk_size = n, sc_overlap_size = None \<rparr>"

definition sixty_letters :: string where
  \<comment> \<open>one word of sixty letters, no full stop\<close>
  "sixty_letters = replicate 60 CHR ''a''"

definition short_scan_analysis :: DocumentAnalysisResult where
  \<comment> \<open>what the analyzer returns on \<open>short_scan_pdf\<close>\<close>
  "short_scan_analysis =
     \<lparr> document_type = SCANNED, processing_path = OCR_AGENTIC, confidence = 0.85,
       total_pages = 1, pages_with_text = 0, pages_requiring_ocr = 1,
       page_analyses = [scanned_analysis], analysis_method = ''complete'' \<rparr>"

section \<open>Properties of the Page Content Analyzer\<close>

lemma py_round_int: "py_round (of_int k) = k"
  by (simp add: py_round_def)

lemma py_round_ge: "of_int k \<le> x \<Longrightarrow> k \<le> py_round x"
proof -
  assume "of_int k \<le> x"
  then have "k \<le> \<lfloor>x\<rfloor>" by (simp add: le_floor_iff)
  moreover have "\<lfloor>x\<rfloor> \<le> py_round x" unfolding py_round_def Let_def by simp
  ultimately show ?thesis by linarith
qed

lemma py_round_digits_ge_half: "1 / 2 \<le> x \<Longrightarrow> 1 / 2 \<le> py_round_digits x 3"
proof -
  assume h: "1 / 2 \<le> x"
  then have "of_int 500 \<le> x * 10 ^ 3" by simp
  then have "500 \<le> py_round (x * 10 ^ 3)" by (rule py_round_ge)
  then have "(500::rat) \<le> of_int (py_round (x * 10 ^ 3))" by linarith
  then show ?thesis unfolding py_round_digits_def by simp
qed

lemma ocr_page_ratio_nonneg: "0 \<le> ocr_page_ratio pas"
  unfolding ocr_page_ratio_def by simp

lemma text_page_ratio_nonneg: "0 \<le> text_page_ratio pas"
  unfolding text_page_ratio_def by simp

lemma classify_type_conf_ge: "1 / 2 \<le> snd (snd (classify_type pas))"
  using ocr_page_ratio_nonneg [of pas] text_page_ratio_nonneg [of pas]
  unfolding classify_type_def by (auto simp: min_def)

lemma adjust_confidence_ge: "1 / 2 \<le> c \<Longrightarrow> 1 / 2 \<le> adjust_confidence pas c"
  unfolding adjust_confidence_def by (auto simp: min_def max_def)

lemma classify_document_fields:
  "document_type (classify_document pas tp) = fst (classify_type pas)"
  "processing_path (classify_document pas tp) = fst (snd (classify_type pas))"
  "confidence (classify_document pas tp) =
     py_round_digits (adjust_confidence pas (snd (snd (classify_type pas)))) 3"
  "total_pages (classify_document pas tp) = tp"
  "pages_with_text (classify_document pas tp) + pages_requiring_ocr (classify_document pas tp) = tp"
  unfolding classify_document_def Let_def by (simp_all add: case_prod_beta)

lemma classify_confidence_floor: "1 / 2 \<le> confidence (classify_document pas tp)"
  by (simp only: classify_document_fields py_round_digits_ge_half adjust_confidence_ge
      classify_type_conf_ge)

lemma text_page_ratio_cong:
  assumes "map has_text pas = map has_text pas'"
  shows "text_page_ratio pas = text_page_ratio pas'"
proof -
  have l: "length pas = length pas'" using assms by (metis length_map)
  have "length (filter has_text pas) = length (filter id (map has_text pas))"
    by (simp add: filter_map comp_def)
  also have "\<dots> = length (filter has_text pas')" using assms by (simp add: filter_map comp_def)
  finally show ?thesis using l unfolding text_page_ratio_def by auto
qed

lemma analyze_total: "\<exists>a. analyze_pdf_type pdf = Inr a"
  unfolding analyze_pdf_type_def by (cases "analyze_pdf_try pdf") simp_all

lemma text_page_ratio_samples:
  "text_page_ratio [native_analysis] = 1" "text_page_ratio [scanned_analysis] = 0"
  by (simp_all add: text_page_ratio_def native_analysis_def scanned_analysis_def)

text \<open>
  C4. For a non-empty list of page analyses: when every sampled page has meaningful text
  (the text ratio is 1) the classifier returns type native and the structural path, and the
  confidence before the readability adjustment is \<open>min(0.95, 0.5 + textRatio * 0.5)\<close>, that
  is 0.95; when no sampled page has meaningful text (the ratio is 0) it returns type scanned
  and the OCR path.
\<close>

theorem classify_extreme_ratios:
  assumes "pas \<noteq> []"
  shows "(text_page_ratio pas = 1 \<longrightarrow>
            document_type (classify_document pas tp) = NATIVE \<and>
            processing_path (classify_document pas tp) = STRUCTURAL \<and>
            snd (snd (classify_type pas)) = min 0.95 (0.5 + text_page_ratio pas * 0.5) \<and>
            snd (snd (classify_type pas)) = 0.95) \<and>
         (text_page_ratio pas = 0 \<longrightarrow>
            document_type (classify_document pas tp) = SCANNED \<and>
            processing_path (classify_document pas tp) = OCR_AGENTIC)"
  by (simp add: classify_document_fields classify_type_def native_page_threshold_def
      mixed_threshold_def)

theorem classify_extreme_ratios_witness:
  "[native_analysis] \<noteq> [] \<and> text_page_ratio [native_analysis] = 1 \<and>
   document_type (classify_document [native_analysis] 1) = NATIVE \<and>
   processing_path (classify_document [native_analysis] 1) = STRUCTURAL \<and>
   snd (snd (classify_type [native_analysis])) = 0.95 \<and>
   [scanned_analysis] \<noteq> [] \<and> text_page_ratio [scanned_analysis] = 0 \<and>
   document_type (classify_document [scanned_analysis] 1) = SCANNED \<and>
   processing_path (classify_document [scanned_analysis] 1) = OCR_AGENTIC"
  using classify_extreme_ratios [of "[native_analysis]" 1]
    classify_extreme_ratios [of "[scanned_analysis]" 1]
  by (simp add: text_page_ratio_samples)

text \<open>
  C5. The analyzer's \<open>analyze_pdf_type\<close> never raises: it always returns a classification.
  When anything inside its \<open>try\<close> block raises, the classification returned is the
  fallback one, whose path is the OCR path and whose confidence is 0.3, below the floor of
  0.5 that every classification computed by \<open>_classify_document\<close> respects.
\<close>

theorem analyze_pdf_type_never_raises:
  "(\<exists>r. analyze_pdf_type pdf = Inr r) \<and>
   (\<forall>e. analyze_pdf_try pdf = Inl e \<longrightarrow>
      analyze_pdf_type pdf = Inr (analyzer_fallback_result e) \<and>
      processing_path (analyzer_fallback_result e) = OCR_AGENTIC \<and>
      confidence (analyzer_fallback_result e) = 0.3 \<and>
      confidence (analyzer_fallback_result e) < 0.5) \<and>
   0.5 \<le> confidence (classify_document pas tp)"
proof -
  have "\<exists>r. analyze_pdf_type pdf = Inr r" by (rule analyze_total)
  moreover have "\<forall>e. analyze_pdf_try pdf = Inl e \<longrightarrow>
      analyze_pdf_type pdf = Inr (analyzer_fallback_result e) \<and>
      processing_path (analyzer_fallback_result e) = OCR_AGENTIC \<and>
      confidence (analyzer_fallback_result e) = 0.3 \<and>
      confidence (analyzer_fallback_result e) < 0.5"
    by (simp add: analyze_pdf_type_def analyzer_fallback_result_def)
  moreover have "0.5 \<le> confidence (classify_document pas tp)"
    using classify_confidence_floor [of pas tp] by simp
  ultimately show ?thesis by blast
qed

theorem analyze_pdf_type_never_raises_witness:
  "analyze_pdf_try (Inl ''cannot open file'') = Inl ''cannot open file'' \<and>
   analyze_pdf_type (Inl ''cannot open file'') = Inr (analyzer_fallback_result ''cannot open file'') \<and>
   processing_path (analyzer_fallback_result ''cannot open file'') = OCR_AGENTIC \<and>
   confidence (analyzer_fallback_result ''cannot open file'') = 0.3"
proof -
  have h: "analyze_pdf_try (Inl ''cannot open file'') = Inl ''cannot open file''"
    by (simp add: analyze_pdf_try_def)
  show ?thesis
    using h analyze_pdf_type_never_raises [of "Inl ''cannot open file''" "[]" 0] by simp
qed

text \<open>
  C8. Classification is deterministic. The document type and the processing path are
  functions of the \<open>has_text\<close> flags of the sampled pages alone: two runs whose lists of
  page analyses carry the same flags return the same type and path, whatever the other
  fields and the page counts are. Two runs on the same list and the same total are the
  special case of identical arguments.
\<close>

theorem classification_deterministic:
  assumes "map has_text pas = map has_text pas'"
  shows "document_type (classify_document pas tp) = document_type (classify_document pas' tp') \<and>
         processing_path (classify_document pas tp) = processing_path (classify_document pas' tp')"
  using text_page_ratio_cong [OF assms]
  by (simp add: classify_document_fields classify_type_def)

theorem classification_deterministic_witness:
  "map has_text [native_analysis] = map has_text [native_analysis\<lparr>estimated_readability := 0.9\<rparr>] \<and>
   document_type (classify_document [native_analysis] 1) =
     document_type (classify_document [native_analysis\<lparr>estimated_readability := 0.9\<rparr>] 1) \<and>
   processing_path (classify_document [native_analysis] 1) =
     processing_path (classify_document [native_analysis\<lparr>estimated_readability := 0.9\<rparr>] 1)"
proof -
  have h: "map has_text [native_analysis] = map has_text [native_analysis\<lparr>estimated_readability := 0.9\<rparr>]"
    by simp
  show ?thesis
    using h classification_deterministic [OF h, of 1 1] by simp
qed

text \<open>
  C9. In every result the analyzer produces, from \<open>_classify_document\<close> or from the
  failure fallback, the extrapolated \<open>pages_with_text\<close> plus \<open>pages_requiring_ocr\<close> equals
  \<open>total_pages\<close>.
\<close>

theorem analyzer_page_counts:
  "(\<exists>r. analyze_pdf_type pdf = Inr r \<and>
        pages_with_text r + pages_requiring_ocr r = total_pages r) \<and>
   pages_with_text (classify_document pas tp) + pages_requiring_ocr (classify_document pas tp)
     = total_pages (classify_document pas tp) \<and>
   pages_with_text (analyzer_fallback_result e) + pages_requiring_ocr (analyzer_fallback_result e)
     = total_pages (analyzer_fallback_result e)"
proof -
  have "\<exists>r. analyze_pdf_type pdf = Inr r \<and>
        pages_with_text r + pages_requiring_ocr r = total_pages r"
    unfolding analyze_pdf_type_def analyze_pdf_try_def Let_def
    by (auto split: sum.splits simp: classify_document_fields analyzer_fallback_result_def)
  then show ?thesis
    by (simp add: classify_document_fields analyzer_fallback_result_def)
qed

theorem analyzer_page_counts_witness:
  "pages_with_text (classify_document [native_analysis, scanned_analysis, scanned_analysis] 10)
   + pages_requiring_ocr (classify_document [native_analysis, scanned_analysis, scanned_analysis] 10)
   = total_pages (classify_document [native_analysis, scanned_analysis, scanned_analysis] 10)"
  using analyzer_page_counts [of "Inl []" "[native_analysis, scanned_analysis, scanned_analysis]" 10 "[]"]
  by simp

section \<open>Properties of the Structural Chunker's validation\<close>

lemma count_outside:
  "length (filter (\<lambda>s. s < 100) (map sc_chunk_size chunks))
   + length (filter (\<lambda>s. 2000 < s) (map sc_chunk_size chunks))
   = length (filter (\<lambda>c. sc_chunk_size c < 100 \<or> 2000 < sc_chunk_size c) chunks)"
  by (induction chunks) auto

lemma dict_get_set_same: "dict_get (dict_set d k v) k = Some v"
  unfolding dict_get_def by (induction d) auto

lemma dict_get_set_other: "k' \<noteq> k \<Longrightarrow> dict_get (dict_set d k v) k' = dict_get d k'"
  unfolding dict_get_def by (induction d) auto

text \<open>
  C7. \<open>validate_chunks\<close> sets \<open>valid\<close> to false exactly when the list of parents is empty
  or strictly more than 30% of the parents have a \<open>chunk_size\<close> below 100 or above 2000;
  otherwise \<open>valid\<close> is true.
\<close>

theorem validate_chunks_invalid_iff:
  "dict_get (validate_chunks chunks) ''valid'' =
     Some (PBool (\<not> (chunks = [] \<or>
        of_nat (length chunks) * 0.3
          < (of_nat (length (filter (\<lambda>c. sc_chunk_size c < 100 \<or> 2000 < sc_chunk_size c) chunks)) :: rat))))"
proof (cases "chunks = []")
  case True
  then show ?thesis by (simp add: validate_chunks_def dict_get_def)
next
  case False
  have c: "of_nat (length (filter (\<lambda>s. s < 100) (map sc_chunk_size chunks))
            + length (filter (\<lambda>s. 2000 < s) (map sc_chunk_size chunks)))
         = (of_nat (length (filter (\<lambda>c. sc_chunk_size c < 100 \<or> 2000 < sc_chunk_size c) chunks)) :: rat)"
    by (simp only: count_outside)
  show ?thesis
    using False unfolding validate_chunks_def Let_def c
    by (simp add: dict_get_set_other dict_get_set_same) (simp add: dict_get_def)
qed

theorem validate_chunks_invalid_iff_witness:
  "dict_get (validate_chunks (replicate 7 (sized_chunk 500) @ replicate 3 (sized_chunk 50))) ''valid''
     = Some (PBool True) \<and>
   dict_get (validate_chunks (replicate 6 (sized_chunk 500) @ replicate 4 (sized_chunk 2500))) ''valid''
     = Some (PBool False) \<and>
   dict_get (validate_chunks []) ''valid'' = Some (PBool False)"
  using validate_chunks_invalid_iff [of "replicate 7 (sized_chunk 500) @ replicate 3 (sized_chunk 50)"]
    validate_chunks_invalid_iff [of "replicate 6 (sized_chunk 500) @ replicate 4 (sized_chunk 2500)"]
    validate_chunks_invalid_iff [of "[]"]
  by (simp add: sized_chunk_def)

section \<open>Properties of the Semantic Chunker\<close>

subsection \<open>Combining the recognized pages\<close>

lemma filter_key_distinct:
  "distinct (map f zs) \<Longrightarrow> k \<in> set zs \<Longrightarrow> filter (\<lambda>x. f k = f x) zs = [k]"
proof (induction zs)
  case Nil
  then show ?case by simp
next
  case (Cons z zs)
  show ?case
  proof (cases "k = z")
    case True
    have "\<forall>x\<in>set zs. f z \<noteq> f x" using Cons.prems(1) by auto
    then have "filter (\<lambda>x. f z = f x) zs = []" by (simp add: filter_empty_conv)
    then show ?thesis using True by simp
  next
    case False
    then have kin: "k \<in> set zs" using Cons.prems(2) by simp
    have "f z \<notin> f ` set zs" using Cons.prems(1) by simp
    then have "f k \<noteq> f z" using kin by (metis imageI)
    moreover have "filter (\<lambda>x. f k = f x) zs = [k]" using Cons.IH Cons.prems(1) kin by simp
    ultimately show ?thesis by simp
  qed
qed

lemma sort_key_perm_distinct:
  assumes d: "distinct (map f xs)" and m: "mset ys = mset xs"
  shows "sort_key f ys = sort_key f xs"
proof (rule properties_for_sort_key)
  show "mset (sort_key f xs) = mset ys" using m by simp
  show "sorted (map f (sort_key f xs))" by simp
  fix k assume k: "k \<in> set (sort_key f xs)"
  have "mset (map f ys) = mset (map f xs)" using m by (metis mset_map)
  then have dy: "distinct (map f ys)" using d by (metis mset_eq_imp_distinct_iff)
  have "mset (map f (sort_key f xs)) = mset (map f xs)" by (metis mset_map mset_sort)
  then have ds: "distinct (map f (sort_key f xs))" using d by (metis mset_eq_imp_distinct_iff)
  have kx: "k \<in> set xs" using k by simp
  then have ky: "k \<in> set ys" using m by (metis mset_eq_setD)
  show "filter (\<lambda>x. f k = f x) (sort_key f xs) = filter (\<lambda>x. f k = f x) ys"
    using filter_key_distinct [OF ds k] filter_key_distinct [OF dy ky] by simp
qed

lemma concat_page_parts:
  "concat (concat (map (page_parts n) xs)) =
   concat (map (\<lambda>r. if strip (ocr_text r) = [] then []
                     else (if 1 < n then page_separator (ocr_page_number r) else [])
                          @ ocr_text r @ [newline, newline]) xs)"
  by (induction xs) (simp_all add: page_parts_def)

text \<open>
  C10. For OCR page results with pairwise distinct page numbers, \<open>_combine_ocr_results\<close>
  returns the same text for every permutation of the list. The text is the stripped
  concatenation, in strictly ascending page-number order, of the pages whose text is not
  blank, each followed by two newlines and preceded by a page separator only when the list
  has more than one element.
\<close>

theorem combine_ocr_results_permutation:
  assumes "distinct (map ocr_page_number rs)" and "mset rs' = mset rs"
  shows "combine_ocr_results rs' = combine_ocr_results rs \<and>
         (\<exists>ordered. mset ordered = mset rs \<and>
            sorted_wrt (<) (map ocr_page_number ordered) \<and>
            combine_ocr_results rs' =
              strip (concat (map (\<lambda>r. if strip (ocr_text r) = [] then []
                                       else (if 1 < length rs then page_separator (ocr_page_number r) else [])
                                            @ ocr_text r @ [newline, newline]) ordered)))"
proof -
  have len: "length rs' = length rs" using assms(2) by (metis size_mset)
  have srt: "sort_key ocr_page_number rs' = sort_key ocr_page_number rs"
    using assms by (rule sort_key_perm_distinct)
  have eq: "combine_ocr_results rs' = combine_ocr_results rs"
    unfolding combine_ocr_results_def len srt ..
  let ?ord = "sort_key ocr_page_number rs"
  have "mset (map ocr_page_number ?ord) = mset (map ocr_page_number rs)"
    by (metis mset_map mset_sort)
  then have "distinct (map ocr_page_number ?ord)" using assms(1) by (metis mset_eq_imp_distinct_iff)
  then have s: "sorted_wrt (<) (map ocr_page_number ?ord)"
    by (simp add: strict_sorted_iff)
  have m: "mset ?ord = mset rs" by simp
  have c: "combine_ocr_results rs' =
      strip (concat (map (\<lambda>r. if strip (ocr_text r) = [] then []
                               else (if 1 < length rs then page_separator (ocr_page_number r) else [])
                                    @ ocr_text r @ [newline, newline]) ?ord))"
    by (simp only: eq) (simp only: combine_ocr_results_def concat_page_parts)
  show ?thesis using eq m s c by blast
qed

theorem combine_ocr_results_permutation_witness:
  "distinct (map ocr_page_number [ocr_page 1 ''one'', ocr_page 2 ''two'']) \<and>
   mset [ocr_page 2 ''two'', ocr_page 1 ''one''] = mset [ocr_page 1 ''one'', ocr_page 2 ''two''] \<and>
   combine_ocr_results [ocr_page 2 ''two'', ocr_page 1 ''one'']
     = combine_ocr_results [ocr_page 1 ''one'', ocr_page 2 ''two'']"
proof -
  have d: "distinct (map ocr_page_number [ocr_page 1 ''one'', ocr_page 2 ''two''])"
    by (simp add: ocr_page_def)
  have m: "mset [ocr_page 2 ''two'', ocr_page 1 ''one''] = mset [ocr_page 1 ''one'', ocr_page 2 ''two'']"
    by (simp add: add.commute)
  show ?thesis using d m combine_ocr_results_permutation [OF d m] by blast
qed

subsection \<open>The deterministic fallback splitter\<close>

lemma split_ws_acc_good:
  "\<forall>c\<in>set w. \<not> is_space c \<Longrightarrow>
   \<forall>x\<in>set (split_ws_acc s w). x \<noteq> [] \<and> (\<forall>c\<in>set x. \<not> is_space c)"
proof (induction s arbitrary: w)
  case Nil
  then show ?case by simp
next
  case (Cons a s)
  have e: "\<forall>x\<in>set (split_ws_acc s []). x \<noteq> [] \<and> (\<forall>c\<in>set x. \<not> is_space c)"
    by (rule Cons.IH) simp
  show ?case
  proof (cases "is_space a")
    case True
    then show ?thesis using e Cons.prems by auto
  next
    case False
    then have "\<forall>c\<in>set (w @ [a]). \<not> is_space c" using Cons.prems by simp
    then have "\<forall>x\<in>set (split_ws_acc s (w @ [a])). x \<noteq> [] \<and> (\<forall>c\<in>set x. \<not> is_space c)"
      by (rule Cons.IH)
    then show ?thesis using False by simp
  qed
qed

lemma split_ws_good: "\<forall>x\<in>set (split_ws s). x \<noteq> [] \<and> (\<forall>c\<in>set x. \<not> is_space c)"
  unfolding split_ws_def by (rule split_ws_acc_good) simp

lemma strip_id:
  assumes "s \<noteq> []" "\<not> is_space (hd s)" "\<not> is_space (last s)"
  shows "strip s = s"
proof -
  have l: "lstrip s = s" using assms(1,2) unfolding lstrip_def by (cases s) simp_all
  have "rev s \<noteq> []" "\<not> is_space (hd (rev s))" using assms(1,3) by (simp_all add: hd_rev)
  then have "dropWhile is_space (rev s) = rev s" by (cases "rev s") simp_all
  then have "rstrip s = s" unfolding rstrip_def by simp
  then show ?thesis unfolding strip_def l .
qed

lemma join_ends:
  assumes "ws \<noteq> []" "\<forall>w\<in>set ws. w \<noteq> []"
  shows "join sep ws \<noteq> [] \<and> hd (join sep ws) = hd (hd ws) \<and> last (join sep ws) = last (last ws)"
  using assms
proof (induction sep ws rule: join.induct)
  case (1 sep)
  then show ?case by simp
next
  case (2 sep w)
  then show ?case by simp
next
  case (3 sep w v vs)
  then show ?case by simp
qed

lemma strip_join_good:
  assumes "ws \<noteq> []" "\<forall>w\<in>set ws. w \<noteq> [] \<and> (\<forall>c\<in>set w. \<not> is_space c)"
  shows "strip (join sep ws) = join sep ws"
proof -
  have ne: "\<forall>w\<in>set ws. w \<noteq> []" using assms(2) by simp
  note e = join_ends [OF assms(1) ne, of sep]
  have "hd ws \<in> set ws" "last ws \<in> set ws" using assms(1) by simp_all
  then have "\<not> is_space (hd (hd ws))" "\<not> is_space (last (last ws))"
    using assms(2) by (metis hd_in_set, metis last_in_set)
  then show ?thesis using e by (simp add: strip_id)
qed

lemma fallback_loop_invariant:
  assumes "\<forall>w\<in>set (words @ cur). w \<noteq> [] \<and> (\<forall>c\<in>set w. \<not> is_space c)"
    and "\<forall>p\<in>set chunks. confidence_score p = 0.6 \<and> 100 \<le> length (content p)"
    and "fallback_loop words chunks cur = (chunks', cur')"
  shows "(\<forall>p\<in>set chunks'. confidence_score p = 0.6 \<and> 100 \<le> length (content p))"
  using assms
proof (induction words arbitrary: chunks cur)
  case Nil
  then show ?case by simp
next
  case (Cons word ws)
  let ?cur = "cur @ [word]"
  let ?text = "join '' '' ?cur"
  have good: "\<forall>w\<in>set ?cur. w \<noteq> [] \<and> (\<forall>c\<in>set w. \<not> is_space c)"
    using Cons.prems(1) by auto
  have st: "strip ?text = ?text" by (rule strip_join_good) (use good in simp_all)
  show ?case
  proof (cases "(target_parent_chunk_size \<le> length ?text \<or> endswith_dot word) \<and> 100 \<le> length ?text")
    case True
    let ?p = "\<lparr> content = strip ?text,
                 thematic_summary = ''Content section '' @ str_nat (length chunks + 1),
                 confidence_score = 0.6,
                 child_chunks = sentence_children (strip ?text) \<rparr>"
    have run: "fallback_loop ws (chunks @ [?p]) [] = (chunks', cur')"
      using Cons.prems(3) True by (simp add: Let_def)
    have a: "\<forall>w\<in>set (ws @ []). w \<noteq> [] \<and> (\<forall>c\<in>set w. \<not> is_space c)"
      using Cons.prems(1) by auto
    have b: "\<forall>p\<in>set (chunks @ [?p]). confidence_score p = 0.6 \<and> 100 \<le> length (content p)"
      using Cons.prems(2) True st by auto
    show ?thesis by (rule Cons.IH [OF a b run])
  next
    case False
    have run: "fallback_loop ws chunks ?cur = (chunks', cur')"
      using Cons.prems(3) False by (simp add: Let_def)
    have a: "\<forall>w\<in>set (ws @ ?cur). w \<noteq> [] \<and> (\<forall>c\<in>set w. \<not> is_space c)"
      using Cons.prems(1) by auto
    show ?thesis by (rule Cons.IH [OF a Cons.prems(2) run])
  qed
qed

lemma remaining_chunk_bounds:
  "length (remaining_chunk cur) \<le> 1 \<and>
   (\<forall>p\<in>set (remaining_chunk cur). confidence_score p = 0.5 \<and> 50 \<le> length (content p))"
  unfolding remaining_chunk_def by (simp add: Let_def)

lemma is_space_a: "\<not> is_space CHR ''a''"
  by (simp add: is_space_def)

lemma split_ws_acc_replicate:
  "\<not> is_space c \<Longrightarrow>
   split_ws_acc (replicate n c) w = (if w @ replicate n c = [] then [] else [w @ replicate n c])"
  by (induction n arbitrary: w) (simp_all add: replicate_app_Cons_same)

lemma split_ws_sixty_letters: "split_ws sixty_letters = [sixty_letters]"
  by (simp add: sixty_letters_def split_ws_def split_ws_acc_replicate is_space_a)

lemma parents_sixty_letters:
  "parent_chunks (create_simple_fallback_chunks sixty_letters) =
     [\<lparr> content = sixty_letters, thematic_summary = ''Final content section'',
        confidence_score = 0.5,
        child_chunks = [\<lparr> cc_content = sixty_letters, sequence_number = 1,
                          semantic_role = ''conclusion'' \<rparr>] \<rparr>]"
proof -
  have e: "\<not> endswith_dot sixty_letters"
    by (simp add: endswith_dot_def sixty_letters_def)
  have s: "strip sixty_letters = sixty_letters"
    by (rule strip_id) (simp_all add: sixty_letters_def is_space_a hd_replicate)
  have l: "length sixty_letters = 60" by (simp add: sixty_letters_def)
  show ?thesis
    by (simp add: create_simple_fallback_chunks_def split_ws_sixty_letters e s l
        target_parent_chunk_size_def remaining_chunk_def Let_def)
qed

text \<open>
  C6, as the code has it. The parents returned by \<open>_create_simple_fallback_chunks\<close> are
  the chunks cut in the loop, each with confidence 0.6 and a content of at least 100
  characters, followed by at most one chunk made of the remaining words, with confidence
  0.5 and a content of at least 50 characters. When the text has at least one word the
  metadata of the result records status \<open>fallback\<close>.
\<close>

theorem simple_fallback_chunks_bounds:
  "(\<exists>main rest. parent_chunks (create_simple_fallback_chunks text) = main @ rest \<and>
      (\<forall>p\<in>set main. confidence_score p = 0.6 \<and> 100 \<le> length (content p)) \<and>
      length rest \<le> 1 \<and>
      (\<forall>p\<in>set rest. confidence_score p = 0.5 \<and> 50 \<le> length (content p))) \<and>
   (split_ws text \<noteq> [] \<longrightarrow>
      dict_get (processing_metadata (create_simple_fallback_chunks text)) ''status'' = Some (PStr ''fallback''))"
proof (cases "split_ws text = []")
  case True
  then have "parent_chunks (create_simple_fallback_chunks text) = [] @ []"
    by (simp add: create_simple_fallback_chunks_def create_empty_result_def)
  then show ?thesis using True by fastforce
next
  case False
  obtain chunks0 cur where run: "fallback_loop (split_ws text) [] [] = (chunks0, cur)"
    by (cases "fallback_loop (split_ws text) [] []") auto
  have good: "\<forall>w\<in>set (split_ws text @ []). w \<noteq> [] \<and> (\<forall>c\<in>set w. \<not> is_space c)"
    using split_ws_good [of "text"] by simp
  have e: "\<forall>p\<in>set ([]::ParentChunk list). confidence_score p = 0.6 \<and> 100 \<le> length (content p)"
    by simp
  have main: "\<forall>p\<in>set chunks0. confidence_score p = 0.6 \<and> 100 \<le> length (content p)"
    by (rule fallback_loop_invariant [OF good e run])
  have pc: "parent_chunks (create_simple_fallback_chunks text) = chunks0 @ remaining_chunk cur"
    using False run by (simp add: create_simple_fallback_chunks_def Let_def)
  have st: "dict_get (processing_metadata (create_simple_fallback_chunks text)) ''status'' = Some (PStr ''fallback'')"
    using False run by (simp add: create_simple_fallback_chunks_def Let_def dict_get_def)
  show ?thesis using pc main remaining_chunk_bounds [of cur] st by blast
qed

theorem simple_fallback_chunks_bounds_witness:
  "split_ws sixty_letters \<noteq> [] \<and>
   parent_chunks (create_simple_fallback_chunks sixty_letters) \<noteq> [] \<and>
   dict_get (processing_metadata (create_simple_fallback_chunks sixty_letters)) ''status''
     = Some (PStr ''fallback'')"
  using simple_fallback_chunks_bounds [of sixty_letters]
  by (simp add: split_ws_sixty_letters parents_sixty_letters)

text \<open>
  C6 as stated fails: a text of one sixty-letter word yields a single parent of 60
  characters (confidence 0.5), and a text without words yields status \<open>empty\<close>.
\<close>

theorem simple_fallback_chunks_counterexample:
  "map (length \<circ> content) (parent_chunks (create_simple_fallback_chunks sixty_letters)) = [60] \<and>
   map confidence_score (parent_chunks (create_simple_fallback_chunks sixty_letters)) = [0.5] \<and>
   dict_get (processing_metadata (create_simple_fallback_chunks [])) ''status'' = Some (PStr ''empty'')"
  by (simp add: parents_sixty_letters)
    (simp add: sixty_letters_def create_simple_fallback_chunks_def split_ws_def
      create_empty_result_def dict_get_def)

section \<open>Properties of the Chunking Coordinator\<close>

lemma structural_try_raises: "\<exists>e. structural_try pdf a tid = Inl e"
  unfolding structural_try_def model_getitem_def by (simp split: sum.splits)

lemma structural_try_chunker_raises:
  "pdf_structural pdf = Inl e \<Longrightarrow> structural_try pdf a tid = Inl e"
  unfolding structural_try_def by simp

lemma structural_try_chunker_returns:
  "pdf_structural pdf = Inr sr \<Longrightarrow> structural_try pdf a tid = Inl not_subscriptable"
  unfolding structural_try_def model_getitem_def by simp

lemma new_result_without_analysis:
  "kw_document_analysis kw = None \<Longrightarrow> new_HybridChunkingResult kw = Inl validation_error"
  unfolding new_HybridChunkingResult_def by simp

lemma ocr_agentic_kwargs_fields:
  assumes "ocr_agentic_kwargs pdf a tid = Inr kw"
  shows "kw_document_analysis kw = None \<and> kw_processing_time_seconds kw = None \<and>
         (\<exists>q. kw_quality_score kw = Some q \<and> kw_confidence_score kw = Some (min (confidence a) q))"
  using assms unfolding ocr_agentic_kwargs_def Let_def
  by (auto split: sum.splits if_splits prod.splits)

lemma ocr_agentic_try_raises: "\<exists>e. ocr_agentic_try pdf a tid = Inl e"
proof (cases "ocr_agentic_kwargs pdf a tid")
  case (Inl e)
  then show ?thesis unfolding ocr_agentic_try_def by simp
next
  case (Inr kw)
  then have "new_HybridChunkingResult kw = Inl validation_error"
    using ocr_agentic_kwargs_fields [OF Inr] by (simp add: new_result_without_analysis)
  then show ?thesis using Inr unfolding ocr_agentic_try_def by simp
qed

lemma ocr_agentic_try_ocr_raises:
  "pdf_ocr pdf = Inl e \<Longrightarrow> ocr_agentic_try pdf a tid = Inl e"
  unfolding ocr_agentic_try_def ocr_agentic_kwargs_def by simp

lemma ocr_agentic_try_ocr_returns:
  assumes "pdf_ocr pdf = Inr rs" and "rs \<noteq> []"
  shows "ocr_agentic_try pdf a tid = Inl validation_error"
proof -
  have "\<exists>kw. ocr_agentic_kwargs pdf a tid = Inr kw"
    using assms unfolding ocr_agentic_kwargs_def Let_def by (simp add: case_prod_beta)
  then obtain kw where kw: "ocr_agentic_kwargs pdf a tid = Inr kw" by blast
  have "new_HybridChunkingResult kw = Inl validation_error"
    using ocr_agentic_kwargs_fields [OF kw] by (simp add: new_result_without_analysis)
  then show ?thesis using kw unfolding ocr_agentic_try_def by simp
qed

lemma paths_with_fallback:
  assumes "enable_fallback self"
  shows "process_structural_path depth self pdf a tid = Inl recursion_error \<and>
         process_ocr_agentic_path depth self pdf a tid = Inl recursion_error"
proof (induction depth)
  case 0
  show ?case by simp
next
  case (Suc d)
  obtain e1 e2 where "structural_try pdf a tid = Inl e1" "ocr_agentic_try pdf a tid = Inl e2"
    using structural_try_raises ocr_agentic_try_raises by blast
  then show ?case using Suc assms by simp
qed

lemma paths_without_fallback:
  assumes "\<not> enable_fallback self"
    and "structural_try pdf a tid = Inl e1" and "ocr_agentic_try pdf a tid = Inl e2"
  shows "process_structural_path depth self pdf a tid = Inl (if depth = 0 then recursion_error else e1) \<and>
         process_ocr_agentic_path depth self pdf a tid = Inl (if depth = 0 then recursion_error else e2)"
  using assms by (cases depth) auto

lemma route_processing_raises: "\<exists>e. route_processing depth self pdf path a tid = Inl e"
proof -
  obtain e1 e2 where e: "structural_try pdf a tid = Inl e1" "ocr_agentic_try pdf a tid = Inl e2"
    using structural_try_raises ocr_agentic_try_raises by blast
  show ?thesis
  proof (cases "enable_fallback self")
    case True
    then show ?thesis
      using paths_with_fallback [OF True, of depth pdf a tid] unfolding route_processing_def by simp
  next
    case False
    then show ?thesis
      using paths_without_fallback [OF False e, of depth] unfolding route_processing_def by simp
  qed
qed

lemma route_processing_with_fallback:
  "enable_fallback self \<Longrightarrow> route_processing depth self pdf path a tid = Inl recursion_error"
  using paths_with_fallback [of self depth pdf a tid] unfolding route_processing_def by simp

lemma process_document_try_raises:
  "\<exists>e. process_document_try depth self pdf tid force elapsed = Inl e"
proof -
  obtain a where a: "analyze_pdf_type (pdf_pages pdf) = Inr a" using analyze_total by blast
  let ?path = "case force of Some p \<Rightarrow> p | None \<Rightarrow> processing_path a"
  obtain e where "route_processing depth self pdf ?path a tid = Inl e"
    using route_processing_raises by blast
  then show ?thesis using a unfolding process_document_try_def Let_def by simp
qed

lemma process_document_try_with_fallback:
  assumes "enable_fallback self"
  shows "process_document_try depth self pdf tid force elapsed = Inl recursion_error"
proof -
  obtain a where a: "analyze_pdf_type (pdf_pages pdf) = Inr a" using analyze_total by blast
  show ?thesis
    using a route_processing_with_fallback [OF assms]
    unfolding process_document_try_def Let_def by simp
qed

lemma coordinator_fallback_result_raises:
  "coordinator_fallback_result pdf tid e elapsed = Inl unbound_local_error"
proof -
  obtain a where a: "analyze_pdf_type (pdf_pages pdf) = Inr a" using analyze_total by blast
  show ?thesis unfolding coordinator_fallback_result_def a by simp
qed

lemma process_document_raises:
  "process_document depth self pdf tid force elapsed = Inl unbound_local_error"
proof -
  obtain e where "process_document_try depth self pdf tid force elapsed = Inl e"
    using process_document_try_raises by blast
  then show ?thesis
    unfolding process_document_def by (simp add: coordinator_fallback_result_raises)
qed

lemma determine_sample_pages_1: "determine_sample_pages (Suc 0) = [0]"
  by (simp add: determine_sample_pages_def sample_size_limit_def)

lemma analyze_short_scan_pdf: "analyze_pdf_type (pdf_pages short_scan_pdf) = Inr short_scan_analysis"
proof -
  have r1: "py_round_digits 0 2 = 0"
    using py_round_int [of 0] by (simp add: py_round_digits_def)
  have r2: "py_round_digits (17 / 20) 3 = 17 / 20"
    using py_round_int [of 850] by (simp add: py_round_digits_def)
  show ?thesis
    by (simp add: short_scan_pdf_def blank_scan_page_def analyze_pdf_type_def analyze_pdf_try_def
        determine_sample_pages_1 analyze_page_def classify_document_def classify_type_def
        text_page_ratio_def ocr_page_ratio_def native_page_threshold_def mixed_threshold_def
        adjust_confidence_def avg_readability_def
        py_int_def r1 r2 short_scan_analysis_def scanned_analysis_def)
qed

lemma analyze_unreadable:
  "analyze_pdf_type (pdf_pages unreadable_pdf) = Inr (analyzer_fallback_result ''cannot open file'')"
  by (simp add: unreadable_pdf_def analyze_pdf_type_def analyze_pdf_try_def)

text \<open>
  C1. On \<open>short_scan_pdf\<close>, with fallback enabled and the structural path forced, the
  structural chunker raises. The handler calls the OCR path, whose \<open>try\<close> block raises
  \<open>ValidationError\<close> when it builds its outcome without \<open>document_analysis\<close> and
  \<open>processing_time_seconds\<close>; its handler calls the structural path again, and so on
  until \<open>RecursionError\<close>. \<open>process_document\<close> catches that, and \<open>_create_fallback_result\<close>
  raises \<open>UnboundLocalError\<close>: no outcome is returned, so none with
  \<open>fallback_occurred\<close> set.
\<close>

theorem fallback_returns_no_outcome:
  "enable_fallback default_service \<and>
   analyze_pdf_type (pdf_pages short_scan_pdf) = Inr short_scan_analysis \<and>
   structural_try short_scan_pdf short_scan_analysis 7
     = Inl ''No structured content could be extracted from PDF'' \<and>
   ocr_agentic_try short_scan_pdf short_scan_analysis 7 = Inl validation_error \<and>
   route_processing 1000 default_service short_scan_pdf STRUCTURAL short_scan_analysis 7
     = Inl recursion_error \<and>
   process_document 1000 default_service short_scan_pdf 7 (Some STRUCTURAL) 2
     = Inl unbound_local_error"
proof -
  have f: "enable_fallback default_service" by (simp add: default_service_def)
  have s: "structural_try short_scan_pdf short_scan_analysis 7
             = Inl ''No structured content could be extracted from PDF''"
    by (rule structural_try_chunker_raises) (simp add: short_scan_pdf_def)
  have o: "ocr_agentic_try short_scan_pdf short_scan_analysis 7 = Inl validation_error"
    by (rule ocr_agentic_try_ocr_returns [of _ "[ocr_page 1 ''hi'']"]) (simp_all add: short_scan_pdf_def)
  show ?thesis
    using f s o analyze_short_scan_pdf route_processing_with_fallback [OF f] process_document_raises
    by simp
qed

text \<open>
  C2. On \<open>unreadable_pdf\<close> both paths fail. The \<open>try\<close> block of \<open>process_document\<close>
  raises, and the handler's \<open>_create_fallback_result\<close> raises \<open>UnboundLocalError\<close> instead
  of returning the failed outcome: \<open>process_document\<close> raises to its caller.
\<close>

theorem process_document_raises_to_caller:
  "analyze_pdf_type (pdf_pages unreadable_pdf) = Inr (analyzer_fallback_result ''cannot open file'') \<and>
   structural_try unreadable_pdf (analyzer_fallback_result ''cannot open file'') 7
     = Inl ''cannot open file'' \<and>
   ocr_agentic_try unreadable_pdf (analyzer_fallback_result ''cannot open file'') 7
     = Inl ''cannot open file'' \<and>
   process_document_try 1000 default_service unreadable_pdf 7 None 2 = Inl recursion_error \<and>
   coordinator_fallback_result unreadable_pdf 7 recursion_error 2 = Inl unbound_local_error \<and>
   process_document 1000 default_service unreadable_pdf 7 None 2 = Inl unbound_local_error \<and>
   process_document 1000 (default_service\<lparr>enable_fallback := False\<rparr>) unreadable_pdf 7 None 2
     = Inl unbound_local_error"
proof -
  have f: "enable_fallback default_service" by (simp add: default_service_def)
  have s: "structural_try unreadable_pdf (analyzer_fallback_result ''cannot open file'') 7
             = Inl ''cannot open file''"
    by (rule structural_try_chunker_raises) (simp add: unreadable_pdf_def)
  have o: "ocr_agentic_try unreadable_pdf (analyzer_fallback_result ''cannot open file'') 7
             = Inl ''cannot open file''"
    by (rule ocr_agentic_try_ocr_raises) (simp add: unreadable_pdf_def)
  show ?thesis
    using s o analyze_unreadable process_document_try_with_fallback [OF f]
      coordinator_fallback_result_raises process_document_raises
    by simp
qed

end
